theory Spec2Isabelle
  imports Complex_Main "HOL-Library.Log_Nat" "HOL-Library.Code_Target_Numeral"
begin

chapter \<open>The model\<close>

section \<open>Frontend indicator utilities (frontend/src/utils/indicators.ts)\<close>

text \<open>
  JavaScript numbers are modelled as exact rationals: rounding and overflow of IEEE
  doubles are not modelled. A result of \<open>calculateRSI\<close> is \<open>null\<close>, a number, or
  \<open>NaN\<close>; \<open>NaN\<close> arises only from the division \<open>0 / 0\<close> when the lookback is zero
  (then every later operation keeps it \<open>NaN\<close>). The lookback \<open>period\<close> is a whole
  number of bars, as at every call site (14).
\<close>

datatype js_number = Null | NaN | Num rat

text \<open>
  First loop of \<open>calculateRSI\<close>, one iteration at index \<open>i\<close>:
  \<^verbatim>\<open>const change = data[i] - data[i - 1];
  if (change > 0) gains += change; else losses += Math.abs(change);\<close>
\<close>

definition rsi_accumulate :: "rat list \<Rightarrow> rat \<times> rat \<Rightarrow> nat \<Rightarrow> rat \<times> rat" where
  "rsi_accumulate data gl i =
     (let change = data ! i - data ! (i - 1)
      in if change > 0 then (fst gl + change, snd gl) else (fst gl, snd gl + \<bar>change\<bar>))"

text \<open>
  Second loop (Wilder's smoothing), one iteration at index \<open>i\<close>:
  \<^verbatim>\<open>const gain = change > 0 ? change : 0;
  const loss = change < 0 ? Math.abs(change) : 0;
  avgGain = ((avgGain * (period - 1)) + gain) / period;
  avgLoss = ((avgLoss * (period - 1)) + loss) / period;\<close>
\<close>

definition rsi_smooth :: "rat list \<Rightarrow> nat \<Rightarrow> rat \<times> rat \<Rightarrow> nat \<Rightarrow> rat \<times> rat" where
  "rsi_smooth data period avg i =
     (let change = data ! i - data ! (i - 1);
          gain = (if change > 0 then change else 0);
          loss = (if change < 0 then \<bar>change\<bar> else 0)
      in (((fst avg * (of_nat period - 1)) + gain) / of_nat period,
          ((snd avg * (of_nat period - 1)) + loss) / of_nat period))"

text \<open>
  The pair \<open>(avgGain, avgLoss)\<close> after both loops, for \<open>data\<close> in chronological
  order. The loops run over \<open>i = 1 .. period\<close> and \<open>i = period + 1 .. data.length - 1\<close>.
\<close>

definition rsi_averages :: "rat list \<Rightarrow> nat \<Rightarrow> rat \<times> rat" where
  "rsi_averages data period =
     (let gl = foldl (rsi_accumulate data) (0, 0) [1 ..< Suc period];
          avg0 = (fst gl / of_nat period, snd gl / of_nat period)
      in foldl (rsi_smooth data period) avg0 [Suc period ..< length data])"

definition calculateRSI :: "rat list \<Rightarrow> nat \<Rightarrow> js_number" where
  "calculateRSI prices period =
     (if length prices < period + 1 then Null
      else if period = 0 then NaN
      else let data = rev prices;
               avg = rsi_averages data period
           in if snd avg = 0 then Num 100
              else let rs = fst avg / snd avg
                   in Num (100 - (100 / (1 + rs))))"

section \<open>Browser cache (frontend/src/utils/cache.ts)\<close>

text \<open>
  Values that go through the cache are JSON values. \<open>JSON.parse\<close> and
  \<open>JSON.stringify\<close> are built-ins of the JavaScript runtime, not code of the
  repository: both are parameters of the model. \<open>JSON.parse\<close> throws a
  \<open>SyntaxError\<close> on text that is not valid JSON (\<open>Inl\<close>).
\<close>

datatype json =
  JNull | JBool bool | JNum rat | JStr string | JArr "json list" | JObj "(string \<times> json) list"

datatype js_error = SyntaxError | SecurityError | QuotaExceededError

type_synonym json_parse = "string \<Rightarrow> js_error + json"

type_synonym json_stringify = "json \<Rightarrow> string"

text \<open>
  \<open>window.localStorage\<close>: the stored items, whether access is denied (every call
  throws, as in a browser that blocks storage), and whether the quota is exhausted
  (\<open>setItem\<close> throws). The browser is the global \<open>window\<close>, absent during
  server-side rendering, and the wall clock; Web Storage has no expiry, so the passing of
  time changes the clock only.
\<close>

record local_storage =
  items :: "string \<rightharpoonup> string"
  denied :: bool
  full :: bool

record browser =
  window :: "local_storage option"
  now :: nat

definition getItem :: "local_storage \<Rightarrow> string \<Rightarrow> js_error + string option" where
  "getItem ls key = (if denied ls then Inl SecurityError else Inr (items ls key))"

definition setItem :: "local_storage \<Rightarrow> string \<Rightarrow> string \<Rightarrow> js_error + local_storage" where
  "setItem ls key v =
     (if denied ls then Inl SecurityError
      else if full ls then Inl QuotaExceededError
      else Inr (ls\<lparr>items := (items ls)(key \<mapsto> v)\<rparr>))"



text \<open>
  The body of the \<open>try\<close> block of \<open>loadFromCache\<close>:
  \<^verbatim>\<open>const item = window.localStorage.getItem(key);
  return item ? JSON.parse(item) : null;\<close>
  The empty string is falsy, so it is not parsed.
\<close>

definition loadFromCache_try :: "json_parse \<Rightarrow> local_storage \<Rightarrow> string \<Rightarrow> js_error + json" where
  "loadFromCache_try parse ls key =
     (case getItem ls key of
        Inl e \<Rightarrow> Inl e
      | Inr item \<Rightarrow>
          (case item of
             None \<Rightarrow> Inr JNull
           | Some text \<Rightarrow> if text \<noteq> [] then parse text else Inr JNull))"

definition loadFromCache :: "json_parse \<Rightarrow> browser \<Rightarrow> string \<Rightarrow> json" where
  "loadFromCache parse b key =
     (case window b of
        None \<Rightarrow> JNull
      | Some ls \<Rightarrow>
          (case loadFromCache_try parse ls key of
             Inl error \<Rightarrow> JNull
           | Inr v \<Rightarrow> v))"

text \<open>
  \<open>saveToCache\<close> returns nothing; its effect is the browser afterwards. A failed
  write is caught and leaves the storage as it was.
\<close>

definition saveToCache :: "json_stringify \<Rightarrow> browser \<Rightarrow> string \<Rightarrow> json \<Rightarrow> browser" where
  "saveToCache stringify b key data =
     (case window b of
        None \<Rightarrow> b
      | Some ls \<Rightarrow>
          (case setItem ls key (stringify data) of
             Inl error \<Rightarrow> b
           | Inr ls' \<Rightarrow> b\<lparr>window := Some ls'\<rparr>))"

subsection \<open>Example data for the browser cache\<close>

text \<open>
  A codec instance for the worked examples: it knows one PredictionBundle and its JSON
  text, \<^verbatim>\<open>{"price":101,"confidence":0.75}\<close>, and rejects every other text.
\<close>

definition quoted :: "string \<Rightarrow> string" where
  "quoted s = CHR 0x22 # s @ [CHR 0x22]"

definition sample_bundle :: json where
  "sample_bundle = JObj [(''price'', JNum 101), (''confidence'', JNum (3 / 4))]"

definition sample_text :: string where
  "sample_text = ''{'' @ quoted ''price'' @ '':101,'' @ quoted ''confidence'' @ '':0.75}''"

definition sample_parse :: json_parse where
  "sample_parse text = (if text = sample_text then Inr sample_bundle else Inl SyntaxError)"

definition sample_stringify :: json_stringify where
  "sample_stringify v = (if v = sample_bundle then sample_text else ''null'')"

definition sample_browser :: browser where
  "sample_browser = \<lparr>window = Some \<lparr>items = Map.empty, denied = False, full = False\<rparr>, now = 0\<rparr>"

section \<open>Sequence builder (ml/src/sequence_generator.py, docs/ML/ML_LSTM_TRAINING_GUIDE.md)\<close>

subsection \<open>Data frames and the min-max scaler\<close>

text \<open>
  A data frame is its column names and its rows in time order. The frames that reach the
  sequence builder have no missing cell (the feature engine ends with \<open>dropna\<close>), so a
  cell is a number; numbers are exact rationals. A frame is well formed when its column
  names are distinct and every row has one cell per column.
\<close>

datatype py_error = KeyError | ValueError




definition column_values :: "rat list list \<Rightarrow> nat \<Rightarrow> rat list" where
  "column_values X j = map (\<lambda>r. r ! j) X"

text \<open>
  scikit-learn's \<open>MinMaxScaler(feature_range=(0, 1))\<close>. \<open>fit\<close> records for each
  column the minimum and maximum over all rows given to it, \<open>scale_ = 1 / (max - min)\<close>
  with a zero range replaced by 1, and \<open>min_ = 0 - min * scale_\<close>; it raises
  \<open>ValueError\<close> on a table without rows. \<open>transform\<close> maps a cell \<open>x\<close> to
  \<open>x * scale_ + min_\<close>. The attributes \<open>scale_\<close> and \<open>min_\<close> are named
  \<open>scale_factor\<close> and \<open>min_offset\<close> here.
\<close>

record min_max_scaler =
  data_min :: "rat list"
  data_max :: "rat list"
  scale_factor :: "rat list"
  min_offset :: "rat list"

definition fit :: "rat list list \<Rightarrow> py_error + min_max_scaler" where
  "fit X =
     (if X = [] then Inl ValueError
      else let k = length (hd X);
               mins = map (\<lambda>j. Min (set (column_values X j))) [0 ..< k];
               maxs = map (\<lambda>j. Max (set (column_values X j))) [0 ..< k];
               scl = map2 (\<lambda>lo hi. 1 / (if hi - lo = 0 then 1 else hi - lo)) mins maxs;
               off = map2 (\<lambda>lo s. 0 - lo * s) mins scl
           in Inr \<lparr>data_min = mins, data_max = maxs, scale_factor = scl, min_offset = off\<rparr>)"


subsection \<open>SequenceGenerator\<close>









subsection \<open>The chronological split\<close>

text \<open>
  \<open>split_data\<close> computes its two cut points in double precision:
  \<^verbatim>\<open>train_end = int(n_samples * train_ratio)
  val_end = int(n_samples * (train_ratio + val_ratio))\<close>
  A non-negative double is a pair \<open>(m, e)\<close> standing for \<open>m / 2 ^ e\<close>. Every
  operation rounds its exact result to 53 significant bits, to nearest, ties to even
  (exponent range is not limited). \<open>int\<close> truncates.
\<close>

type_synonym double = "nat \<times> nat"

definition double_value :: "double \<Rightarrow> rat" where
  "double_value d = of_nat (fst d) / 2 ^ snd d"

definition round53 :: "nat \<Rightarrow> nat" where
  "round53 x =
     (let b = floorlog 2 x
      in if b \<le> 53 then x
         else let s = b - 53; m = x div 2 ^ s; r = x mod 2 ^ s; half = 2 ^ (s - 1)
              in (if r < half then m else if half < r then m + 1
                  else if even m then m else m + 1) * 2 ^ s)"

definition fmul :: "double \<Rightarrow> double \<Rightarrow> double" where
  "fmul a b = (round53 (fst a * fst b), snd a + snd b)"

definition fadd :: "double \<Rightarrow> double \<Rightarrow> double" where
  "fadd a b =
     (let e = max (snd a) (snd b)
      in (round53 (fst a * 2 ^ (e - snd a) + fst b * 2 ^ (e - snd b)), e))"

definition float_of_nat :: "nat \<Rightarrow> double" where
  "float_of_nat n = (round53 n, 0)"

definition py_int :: "double \<Rightarrow> nat" where
  "py_int d = fst d div 2 ^ snd d"

text \<open>The doubles nearest to 0.7 and 0.15, the default ratios.\<close>

definition train_ratio_default :: double where
  "train_ratio_default = (3152519739159347, 52)"

definition val_ratio_default :: double where
  "val_ratio_default = (5404319552844595, 55)"

definition train_end :: "nat \<Rightarrow> double \<Rightarrow> nat" where
  "train_end n_samples train_ratio = py_int (fmul (float_of_nat n_samples) train_ratio)"

definition val_end :: "nat \<Rightarrow> double \<Rightarrow> double \<Rightarrow> nat" where
  "val_end n_samples train_ratio val_ratio =
     py_int (fmul (float_of_nat n_samples) (fadd train_ratio val_ratio))"

text \<open>
  The slices \<open>X[:a]\<close>, \<open>X[a:b]\<close> and \<open>X[b:]\<close> for non-negative \<open>a\<close> and
  \<open>b\<close>; a slice whose end lies before its start is empty.
\<close>

definition split_data ::
  "'a list \<Rightarrow> 'b list \<Rightarrow> double \<Rightarrow> double
     \<Rightarrow> 'a list \<times> 'a list \<times> 'a list \<times> 'b list \<times> 'b list \<times> 'b list" where
  "split_data X y train_ratio val_ratio =
     (let n_samples = length X;
          a = train_end n_samples train_ratio;
          b = val_end n_samples train_ratio val_ratio
      in (take a X, take (b - a) (drop a X), drop b X,
          take a y, take (b - a) (drop a y), drop b y))"

subsection \<open>Example data for the sequence builder\<close>





section \<open>Feature engine (ml/src/feature_engineering.py)\<close>

text \<open>
  A cell of a pandas column is a double or \<open>NaN\<close>. Finite doubles are exact
  rationals (rounding is not modelled); the two infinities arise from a division of a
  non-zero number by zero, \<open>NaN\<close> from \<open>0 / 0\<close>, from \<open>inf - inf\<close>,
  \<open>inf / inf\<close> and from any operation on a \<open>NaN\<close>. The sign of a zero is not
  modelled: a division by zero takes the sign of the dividend.
\<close>

datatype float64 = FNaN | Finite rat | PosInf | NegInf



type_synonym col = "float64 list"





text \<open>
  A PriceBar, and the engineer's state: the input frame \<open>self.df\<close> (field \<open>self_df\<close>, one bar per row,
  in time order) and \<open>self.features\<close>, the named columns in the order they were added.
  Every name assigned by the engineer is new, so an assignment appends a column.
\<close>

record price_bar =
  p_open :: rat
  p_high :: rat
  p_low :: rat
  p_close :: rat
  p_volume :: rat

record feature_engineer =
  self_df :: "price_bar list"
  features :: "(string \<times> col) list"

definition df_column :: "feature_engineer \<Rightarrow> (price_bar \<Rightarrow> rat) \<Rightarrow> col" where
  "df_column self field = map (\<lambda>b. Finite (field b)) (self_df self)"











subsection \<open>Causal libraries\<close>



subsection \<open>Example data for the feature engine\<close>










section \<open>Hybrid combiner: confidence (ml/src/hybrid_model.py)\<close>


chapter \<open>Properties\<close>

section \<open>Properties of calculateRSI\<close>









lemma calculateRSI_example: "calculateRSI [3, 1, 2] 2 = Num (200 / 3)"
  by (simp add: calculateRSI_def rsi_averages_def rsi_accumulate_def rsi_smooth_def Let_def
      upt_rec)

lemma calculateRSI_all_gains: "calculateRSI [3, 2, 1] 2 = Num 100"
  by (simp add: calculateRSI_def rsi_averages_def rsi_accumulate_def rsi_smooth_def Let_def
      upt_rec)

section \<open>Properties of the browser cache\<close>

text \<open>
  Claim C10. \<open>loadFromCache\<close> always returns a value (every exception is caught): it
  returns \<open>null\<close> when there is no \<open>window\<close>, when storage access fails, when
  nothing is stored under the key and when the stored text is not valid JSON; otherwise it
  returns the parsed stored value. The empty text is not valid JSON.
\<close>

theorem loadFromCache_total:
  assumes "parse [] = Inl SyntaxError"
  shows "(window b = None \<longrightarrow> loadFromCache parse b key = JNull)
    \<and> (\<forall>ls. window b = Some ls \<longrightarrow>
          (denied ls \<longrightarrow> loadFromCache parse b key = JNull)
          \<and> (\<not> denied ls \<longrightarrow>
                (items ls key = None \<longrightarrow> loadFromCache parse b key = JNull)
                \<and> (\<forall>text. items ls key = Some text \<longrightarrow>
                      (\<forall>e. parse text = Inl e \<longrightarrow> loadFromCache parse b key = JNull)
                      \<and> (\<forall>v. parse text = Inr v \<longrightarrow> loadFromCache parse b key = v))))"
  using assms
  by (auto simp: loadFromCache_def loadFromCache_try_def getItem_def
      split: option.splits sum.splits)

theorem loadFromCache_total_witness:
  "sample_parse [] = Inl SyntaxError
   \<and> loadFromCache sample_parse
        (saveToCache sample_stringify sample_browser ''k'' sample_bundle) ''k'' = sample_bundle
   \<and> loadFromCache sample_parse sample_browser ''k'' = JNull
   \<and> loadFromCache sample_parse \<lparr>window = None, now = 0\<rparr> ''k'' = JNull"
proof -
  have empty: "sample_parse [] = Inl SyntaxError"
    by (simp add: sample_parse_def sample_text_def)
  let ?b = "saveToCache sample_stringify sample_browser ''k'' sample_bundle"
  let ?ls = "\<lparr>items = [''k'' \<mapsto> sample_text], denied = False, full = False\<rparr>"
  have w: "window ?b = Some ?ls"
    by (simp add: saveToCache_def sample_browser_def setItem_def sample_stringify_def)
  have p: "sample_parse sample_text = Inr sample_bundle"
    by (simp add: sample_parse_def)
  have hit: "loadFromCache sample_parse ?b ''k'' = sample_bundle"
    using loadFromCache_total [of sample_parse ?b "''k''"] empty w p by simp
  have miss: "loadFromCache sample_parse sample_browser ''k'' = JNull"
    using loadFromCache_total [of sample_parse sample_browser "''k''"] empty
    by (simp add: sample_browser_def)
  have ssr: "loadFromCache sample_parse \<lparr>window = None, now = 0\<rparr> ''k'' = JNull"
    using loadFromCache_total [of sample_parse "\<lparr>window = None, now = 0\<rparr>" "''k''"] empty
    by simp
  show ?thesis using empty hit miss ssr by simp
qed




section \<open>Properties of the chronological split\<close>

lemma round53_small: "x < 2 ^ 53 \<Longrightarrow> round53 x = x"
  by (simp add: round53_def floorlog_le_iff Let_def)


lemma default_ratio_sum:
  "fadd train_ratio_default val_ratio_default = (30624477466119372, 55)"
proof -
  have "floorlog 2 (30624477466119371::nat) = 55"
    by (rule antisym) (simp_all add: floorlog_le_iff floorlog_geI)
  then have "round53 30624477466119371 = 30624477466119372"
    by (simp add: round53_def)
  then show ?thesis
    by (simp add: fadd_def train_ratio_default_def val_ratio_default_def)
qed

lemma train_end_default:
  "train_end n train_ratio_default = round53 (round53 n * 3152519739159347) div 2 ^ 52"
  by (simp add: train_end_def train_ratio_default_def fmul_def float_of_nat_def py_int_def)

lemma val_end_default:
  "val_end n train_ratio_default val_ratio_default
     = round53 (round53 n * 30624477466119372) div 2 ^ 55"
  by (simp add: val_end_def default_ratio_sum fmul_def float_of_nat_def py_int_def)





lemma floorlog_between: "2 ^ k \<le> x \<Longrightarrow> x < 2 ^ Suc k \<Longrightarrow> floorlog 2 x = Suc k"
  by (rule antisym) (simp_all add: floorlog_le_iff floorlog_geI)

lemma train_end_90: "train_end 90 train_ratio_default = 62"
proof -
  have "floorlog 2 (283726776524341230::nat) = Suc 57"
    by (rule floorlog_between) simp_all
  then have "round53 283726776524341230 = 283726776524341216"
    by (simp add: round53_def)
  then show ?thesis by (simp add: train_end_default round53_small)
qed

lemma train_end_10: "train_end 10 train_ratio_default = 7"
proof -
  have "floorlog 2 (31525197391593470::nat) = Suc 54"
    by (rule floorlog_between) simp_all
  then have "round53 31525197391593470 = 31525197391593472"
    by (simp add: round53_def)
  then show ?thesis by (simp add: train_end_default round53_small)
qed

lemma val_end_10: "val_end 10 train_ratio_default val_ratio_default = 8"
proof -
  have "floorlog 2 (306244774661193720::nat) = Suc 58"
    by (rule floorlog_between) simp_all
  then have "round53 306244774661193720 = 306244774661193728"
    by (simp add: round53_def)
  then show ?thesis by (simp add: val_end_default round53_small)
qed

lemma split_data_example:
  "split_data [0, 1, 2, 3, 4, 5, 6, 7, 8, 9 :: nat] ''abcdefghij'' train_ratio_default
     val_ratio_default
   = ([0, 1, 2, 3, 4, 5, 6], [7], [8, 9], ''abcdefg'', ''h'', ''ij'')"
proof -
  have len: "length [0, 1, 2, 3, 4, 5, 6, 7, 8, 9 :: nat] = 10" by simp
  show ?thesis
    unfolding split_data_def Let_def len train_end_10 val_end_10 by simp
qed


section \<open>Properties of the sequence builder\<close>

subsection \<open>Columns, shifting and dropping\<close>









subsection \<open>The scaler\<close>



lemma fit_total: "X \<noteq> [] \<Longrightarrow> \<exists>sc. fit X = Inr sc"
  by (simp add: fit_def Let_def)






subsection \<open>prepare_data\<close>



subsection \<open>The shifted frame\<close>




subsection \<open>Rounds of create_multi_horizon_targets\<close>





















section \<open>Properties of the feature engine\<close>




lemma df_column_take:
  "take n (df_column self field) = df_column (self\<lparr>self_df := take n (self_df self)\<rparr>) field"
  by (simp add: df_column_def take_map)







































section \<open>Properties of the confidence score\<close>



end
